theory Spec2Isabelle
  imports Complex_Main "HOL-Library.Word" "HOL-Library.Signed_Division"
begin

section \<open>Numbers, points and matrices\<close>

text \<open>
  The vision code computes in IEEE doubles. The embedding idealises a finite double as a
  \<^typ>\<open>real\<close>: rounding and overflow are left out, and every input (matrix entry, pixel,
  coordinate) is a finite number. What is kept is the one way in which the code itself
  produces a non-finite value from finite operands, a division by zero. A double that
  may be non-finite is a \<open>dbl\<close>: \<open>Some r\<close> is the finite value \<open>r\<close>, \<open>None\<close> is
  a NaN or an infinity.
\<close>

type_synonym dbl = "real option"

type_synonym Point2f = "real \<times> real"
type_synonym Point3d = "real \<times> real \<times> real"

text \<open>A 3x3 \<open>cv::Mat\<close> of doubles, as its three rows; a 3x1 one is a \<open>Point3d\<close>.\<close>

type_synonym Mat33 = "Point3d \<times> Point3d \<times> Point3d"

fun vec_at :: "Point3d \<Rightarrow> nat \<Rightarrow> real" where
  "vec_at (a, b, c) i = (if i = 0 then a else if i = 1 then b else c)"

fun mat_row :: "Mat33 \<Rightarrow> nat \<Rightarrow> Point3d" where
  "mat_row (r0, r1, r2) i = (if i = 0 then r0 else if i = 1 then r1 else r2)"

definition mat_at :: "Mat33 \<Rightarrow> nat \<Rightarrow> nat \<Rightarrow> real" where
  "mat_at m i j = vec_at (mat_row m i) j"

fun dot :: "Point3d \<Rightarrow> Point3d \<Rightarrow> real" where
  "dot (a, b, c) (d, e, f) = a * d + b * e + c * f"

fun vec_sub :: "Point3d \<Rightarrow> Point3d \<Rightarrow> Point3d" where
  "vec_sub (a, b, c) (d, e, f) = (a - d, b - e, c - f)"

fun vec_neg :: "Point3d \<Rightarrow> Point3d" where
  "vec_neg (a, b, c) = (- a, - b, - c)"

fun mat_mul_vec :: "Mat33 \<Rightarrow> Point3d \<Rightarrow> Point3d" where
  "mat_mul_vec (r0, r1, r2) v = (dot r0 v, dot r1 v, dot r2 v)"

fun mat_t :: "Mat33 \<Rightarrow> Mat33" where
  "mat_t ((a, b, c), (d, e, f), (g, h, i)) = ((a, d, g), (b, e, h), (c, f, i))"

text \<open>\<open>cv::norm\<close> of a 3x1 matrix: the Euclidean length.\<close>

definition cv_norm :: "Point3d \<Rightarrow> real" where
  "cv_norm v = sqrt (dot v v)"

text \<open>Division of two finite doubles: not finite exactly when the divisor is zero.\<close>

definition fdiv :: "real \<Rightarrow> real \<Rightarrow> dbl" where
  "fdiv a b = (if b = 0 then None else Some (a / b))"

text \<open>The literal \<open>1e-6\<close> of the degeneracy tests.\<close>

definition eps :: real where
  "eps = 1 / 1000000"

section \<open>CoordinateTransform (coordinate\_transform.cpp)\<close>

text \<open>
  The fields of the class. A default-constructed object has both flags false; its empty
  matrices are never read, so any value stands for them.
\<close>

record CoordinateTransform =
  camera_matrix :: Mat33
  dist_coeffs :: "real list"
  rotation :: Mat33
  translation :: Point3d
  has_calibration :: bool
  has_pose :: bool

definition setCalibration :: "Mat33 \<Rightarrow> real list \<Rightarrow> CoordinateTransform \<Rightarrow> CoordinateTransform" where
  "setCalibration km dc ct = ct\<lparr>camera_matrix := km, dist_coeffs := dc, has_calibration := True\<rparr>"

definition setCameraPose :: "Mat33 \<Rightarrow> Point3d \<Rightarrow> CoordinateTransform \<Rightarrow> CoordinateTransform" where
  "setCameraPose r t ct = ct\<lparr>rotation := r, translation := t, has_pose := True\<rparr>"

text \<open>What the functions print on \<open>std::cerr\<close>.\<close>

datatype diagnostic = MissingCalibrationOrPose | RayParallel | IntersectionBehind

text \<open>
  \<open>cv::undistortPoints\<close> belongs to OpenCV, not to this repository: the functions that
  call it take it as the parameter \<open>undistortPoints\<close>, from the camera matrix, the
  distortion coefficients and a pixel to the normalised point. With no distortion
  coefficients it only normalises by the intrinsics, which is \<open>undistort_pinhole\<close>.
\<close>

type_synonym undistorter = "Mat33 \<Rightarrow> real list \<Rightarrow> Point2f \<Rightarrow> Point2f"

definition undistort_pinhole :: undistorter where
  "undistort_pinhole km dc p =
     ((fst p - mat_at km 0 2) / mat_at km 0 0, (snd p - mat_at km 1 2) / mat_at km 1 1)"

text \<open>
  \<open>imageToWorld\<close> returns the point together with the diagnostic it printed, if any.
  When the rotated ray is the zero vector, \<open>ray_world /= norm\<close> divides zero by zero:
  all three components are NaN, both tests (\<open>abs(ray_z) < 1e-6\<close> and \<open>t < 0\<close>) are
  false on a NaN, and the point returned has NaN in x and y and \<open>z_plane\<close> in z.
\<close>

definition imageToWorld ::
  "undistorter \<Rightarrow> CoordinateTransform \<Rightarrow> Point2f \<Rightarrow> real \<Rightarrow> diagnostic option \<times> (dbl \<times> dbl \<times> dbl)" where
  "imageToWorld undistortPoints ct image_point z_plane =
     (if \<not> has_calibration ct \<or> \<not> has_pose ct then
        (Some MissingCalibrationOrPose, (Some 0, Some 0, Some 0))
      else
        let normalized = undistortPoints (camera_matrix ct) (dist_coeffs ct) image_point;
            ray_camera = (fst normalized, snd normalized, 1);
            ray_world0 = mat_mul_vec (rotation ct) ray_camera;
            norm = cv_norm ray_world0
        in if norm = 0 then (None, (None, None, Some z_plane))
           else
             let ray_world = (vec_at ray_world0 0 / norm, vec_at ray_world0 1 / norm,
                              vec_at ray_world0 2 / norm);
                 cam_pos_world = mat_mul_vec (mat_t (rotation ct)) (vec_neg (translation ct));
                 cam_z = vec_at cam_pos_world 2;
                 ray_z = vec_at ray_world 2
             in if \<bar>ray_z\<bar> < eps then (Some RayParallel, (Some 0, Some 0, Some 0))
                else
                  let t = (z_plane - cam_z) / ray_z
                  in if t < 0 then (Some IntersectionBehind, (Some 0, Some 0, Some 0))
                     else (None, (Some (vec_at cam_pos_world 0 + t * vec_at ray_world 0),
                                  Some (vec_at cam_pos_world 1 + t * vec_at ray_world 1),
                                  Some z_plane)))"

text \<open>
  \<open>worldToImage\<close> divides by the camera-frame Z with no test. A non-finite quotient
  stays non-finite through \<open>fx * x + cx\<close> and the cast to float.
\<close>

definition worldToImage ::
  "CoordinateTransform \<Rightarrow> Point3d \<Rightarrow> diagnostic option \<times> (dbl \<times> dbl)" where
  "worldToImage ct world_point =
     (if \<not> has_calibration ct \<or> \<not> has_pose ct then
        (Some MissingCalibrationOrPose, (Some 0, Some 0))
      else
        let camera_pt = mat_mul_vec (mat_t (rotation ct)) (vec_sub world_point (translation ct));
            x = fdiv (vec_at camera_pt 0) (vec_at camera_pt 2);
            y = fdiv (vec_at camera_pt 1) (vec_at camera_pt 2);
            fx = mat_at (camera_matrix ct) 0 0;
            fy = mat_at (camera_matrix ct) 1 1;
            cx = mat_at (camera_matrix ct) 0 2;
            cy = mat_at (camera_matrix ct) 1 2
        in (None, (map_option (\<lambda>x. fx * x + cx) x, map_option (\<lambda>y. fy * y + cy) y)))"

definition getRayDirection ::
  "undistorter \<Rightarrow> CoordinateTransform \<Rightarrow> Point2f \<Rightarrow> dbl \<times> dbl \<times> dbl" where
  "getRayDirection undistortPoints ct image_point =
     (if \<not> has_calibration ct \<or> \<not> has_pose ct then (Some 0, Some 0, Some 0)
      else
        let normalized = undistortPoints (camera_matrix ct) (dist_coeffs ct) image_point;
            ray_camera = (fst normalized, snd normalized, 1);
            ray_world = mat_mul_vec (rotation ct) ray_camera;
            norm = cv_norm ray_world
        in (fdiv (vec_at ray_world 0) norm, fdiv (vec_at ray_world 1) norm,
            fdiv (vec_at ray_world 2) norm))"

definition getCameraPosition :: "CoordinateTransform \<Rightarrow> Point3d" where
  "getCameraPosition ct =
     (if \<not> has_pose ct then (0, 0, 0)
      else mat_mul_vec (mat_t (rotation ct)) (vec_neg (translation ct)))"

text \<open>
  The static \<open>intersectRayPlane\<close>: \<open>std::nullopt\<close> is \<open>None\<close>. The division is guarded
  by the test on the denominator.
\<close>

definition intersectRayPlane :: "Point3d \<Rightarrow> Point3d \<Rightarrow> Point3d \<Rightarrow> Point3d \<Rightarrow> Point3d option" where
  "intersectRayPlane ray_origin ray_direction plane_normal plane_point =
     (let denominator = dot ray_direction plane_normal
      in if \<bar>denominator\<bar> < eps then None
         else
           let diff = vec_sub plane_point ray_origin;
               t = dot diff plane_normal / denominator
           in if t < 0 then None
              else Some (vec_at ray_origin 0 + t * vec_at ray_direction 0,
                         vec_at ray_origin 1 + t * vec_at ray_direction 1,
                         vec_at ray_origin 2 + t * vec_at ray_direction 2))"

text \<open>
  Concrete objects for evaluating the functions: the default-constructed transform, and
  pinhole cameras with unit focal length and no distortion, posed by the two setters.
  \<open>posed_camera\<close> has the identity rotation and the translation (1, 0, 1),
  \<open>origin_camera\<close> the identity rotation and no translation;
  \<open>sideways_camera\<close> is turned so that its optical axis is the world x axis.
\<close>

definition identity33 :: Mat33 where
  "identity33 = ((1, 0, 0), (0, 1, 0), (0, 0, 1))"

definition CoordinateTransform_default :: CoordinateTransform where
  "CoordinateTransform_default =
     \<lparr>camera_matrix = ((0, 0, 0), (0, 0, 0), (0, 0, 0)), dist_coeffs = [],
      rotation = ((0, 0, 0), (0, 0, 0), (0, 0, 0)), translation = (0, 0, 0),
      has_calibration = False, has_pose = False\<rparr>"

definition posed_camera :: CoordinateTransform where
  "posed_camera =
     setCameraPose identity33 (1, 0, 1) (setCalibration identity33 [] CoordinateTransform_default)"

definition origin_camera :: CoordinateTransform where
  "origin_camera =
     setCameraPose identity33 (0, 0, 0) (setCalibration identity33 [] CoordinateTransform_default)"

definition sideways_camera :: CoordinateTransform where
  "sideways_camera =
     setCameraPose ((0, 0, 1), (0, 1, 0), (- 1, 0, 0)) (0, 0, 0)
       (setCalibration identity33 [] CoordinateTransform_default)"

section \<open>AprilTagDetector (apriltag\_detector.cpp)\<close>

text \<open>
  The fields of \<open>apriltag_detection_t\<close> that the code reads (\<open>id\<close>, \<open>c\<close>, \<open>p\<close>,
  \<open>decision_margin\<close>, \<open>hamming\<close>), and \<open>apriltag_detection_info_t\<close>, the argument of
  the pose solver.
\<close>

record apriltag_detection =
  det_id :: int
  det_c :: "real \<times> real"
  det_p :: "(real \<times> real) list"
  det_decision_margin :: real
  det_hamming :: int

record apriltag_detection_info =
  info_det :: apriltag_detection
  info_tagsize :: real
  info_fx :: real
  info_fy :: real
  info_cx :: real
  info_cy :: real

text \<open>
  \<open>AprilTagResult\<close>. An empty \<open>cv::Mat\<close> is \<open>None\<close>. The fields \<open>rotation\<close> and
  \<open>translation\<close> carry the prefix \<open>tag_\<close> here, the plain names being those of
  \<open>CoordinateTransform\<close>.
\<close>

record AprilTagResult =
  tag_id :: "32 word"
  center :: "real \<times> real"
  corners :: "(real \<times> real) list"
  decision_margin :: real
  hamming_distance :: int
  pose_valid :: bool
  tag_rotation :: "Mat33 option"
  tag_translation :: "Point3d option"
  position :: Point3d

text \<open>
  The apriltag library and the two OpenCV calls are outside the repository; the detector
  takes them as a record of functions over an image type \<open>'img\<close>.
  \<open>apriltag_detector_detect\<close> stands for the call on the configured detector object,
  \<open>estimate_tag_pose\<close> returns its error together with the pose (R, t).
\<close>

record 'img apriltag_lib =
  channels :: "'img \<Rightarrow> nat"
  cvtColor :: "'img \<Rightarrow> 'img"
  apriltag_detector_detect :: "'img \<Rightarrow> apriltag_detection list"
  estimate_tag_pose :: "apriltag_detection_info \<Rightarrow> real \<times> Mat33 \<times> Point3d"

text \<open>
  \<open>estimatePose\<close> fills the result passed by reference and returns a flag. The error
  returned by the solver is bound to \<open>err\<close> and not read again; the function ends in
  \<open>return true\<close>.
\<close>

definition estimatePose ::
  "'img apriltag_lib \<Rightarrow> apriltag_detection list \<Rightarrow> nat \<Rightarrow> Mat33 \<Rightarrow> real \<Rightarrow> AprilTagResult
     \<Rightarrow> bool \<times> AprilTagResult" where
  "estimatePose lib detections idx km tag_size result =
     (let det = detections ! idx;
          info = \<lparr>info_det = det, info_tagsize = tag_size,
                  info_fx = mat_at km 0 0, info_fy = mat_at km 1 1,
                  info_cx = mat_at km 0 2, info_cy = mat_at km 1 2\<rparr>;
          solved = estimate_tag_pose lib info;
          err = fst solved;
          pose_R = fst (snd solved);
          pose_t = snd (snd solved)
      in (True, result\<lparr>tag_rotation := Some pose_R, tag_translation := Some pose_t,
                         position := pose_t\<rparr>))"

text \<open>
  The body of the loop over the detections in \<open>detect\<close>, for the index \<open>i\<close>. The
  fields of a fresh \<open>AprilTagResult\<close> that have no initialiser are all assigned before
  they are read; \<open>det->p\<close> is a C array of four corners. The camera matrix is
  \<open>None\<close> when the \<open>cv::Mat\<close> passed is empty.
\<close>

definition detect_one ::
  "'img apriltag_lib \<Rightarrow> apriltag_detection list \<Rightarrow> Mat33 option \<Rightarrow> real \<Rightarrow> nat \<Rightarrow> AprilTagResult" where
  "detect_one lib detections cam tag_size i =
     (let det = detections ! i;
          result = \<lparr>tag_id = word_of_int (det_id det), center = det_c det,
                    corners = map (\<lambda>j. det_p det ! j) [0..<4],
                    decision_margin = det_decision_margin det,
                    hamming_distance = det_hamming det,
                    pose_valid = False, tag_rotation = None, tag_translation = None,
                    position = (0, 0, 0)\<rparr>
      in case cam of
           None \<Rightarrow> result
         | Some km \<Rightarrow>
             (let r = estimatePose lib detections i km tag_size result
              in (snd r)\<lparr>pose_valid := fst r\<rparr>))"

definition detect ::
  "'img apriltag_lib \<Rightarrow> 'img \<Rightarrow> Mat33 option \<Rightarrow> real list \<Rightarrow> real \<Rightarrow> AprilTagResult list" where
  "detect lib img cam dc tag_size =
     (let gray = (if channels lib img = 3 then cvtColor lib img else img);
          detections = apriltag_detector_detect lib gray
      in map (detect_one lib detections cam tag_size) [0..<length detections])"

text \<open>
  A rotation is orthonormal within \<open>tol\<close> when every entry of \<open>R R\<^sup>T - I\<close> is below
  \<open>tol\<close> in absolute value.
\<close>

definition orthonormal_within :: "real \<Rightarrow> Mat33 \<Rightarrow> bool" where
  "orthonormal_within tol r =
     (\<bar>dot (mat_row r 0) (mat_row r 0) - 1\<bar> < tol \<and> \<bar>dot (mat_row r 0) (mat_row r 1)\<bar> < tol
      \<and> \<bar>dot (mat_row r 0) (mat_row r 2)\<bar> < tol \<and> \<bar>dot (mat_row r 1) (mat_row r 0)\<bar> < tol
      \<and> \<bar>dot (mat_row r 1) (mat_row r 1) - 1\<bar> < tol \<and> \<bar>dot (mat_row r 1) (mat_row r 2)\<bar> < tol
      \<and> \<bar>dot (mat_row r 2) (mat_row r 0)\<bar> < tol \<and> \<bar>dot (mat_row r 2) (mat_row r 1)\<bar> < tol
      \<and> \<bar>dot (mat_row r 2) (mat_row r 2) - 1\<bar> < tol)"

text \<open>
  Concrete collaborators for evaluation, over images that are lists of bytes: a detector
  that reports one tag with the corners of a square, and two solvers, one answering the
  identity rotation, one that did not converge and answers a large error with the zero
  matrix.
\<close>

definition square_tag :: apriltag_detection where
  "square_tag =
     \<lparr>det_id = 7, det_c = (320, 240),
      det_p = [(310, 250), (330, 250), (330, 230), (310, 230)],
      det_decision_margin = 60, det_hamming = 0\<rparr>"

definition good_lib :: "nat list apriltag_lib" where
  "good_lib =
     \<lparr>channels = (\<lambda>img. 1), cvtColor = (\<lambda>img. img),
      apriltag_detector_detect = (\<lambda>img. [square_tag]),
      estimate_tag_pose = (\<lambda>info. (0, identity33, (0, 0, 1)))\<rparr>"

definition diverged_lib :: "nat list apriltag_lib" where
  "diverged_lib =
     \<lparr>channels = (\<lambda>img. 1), cvtColor = (\<lambda>img. img),
      apriltag_detector_detect = (\<lambda>img. [square_tag]),
      estimate_tag_pose = (\<lambda>info. (1000, ((0, 0, 0), (0, 0, 0), (0, 0, 0)), (0, 0, 0)))\<rparr>"

text \<open>
  What \<open>detect\<close> makes of one detection, written without the index and without the
  call by reference: the solver sees the detection as the library reported it, the tag
  size and the four pinhole intrinsics. \<open>detect_eq\<close> below proves that \<open>detect\<close> is the
  map of this function over the detections.
\<close>

definition tag_result :: "'img apriltag_lib \<Rightarrow> Mat33 option \<Rightarrow> real \<Rightarrow> apriltag_detection \<Rightarrow> AprilTagResult" where
  "tag_result lib cam tag_size det =
     (let plain = \<lparr>tag_id = word_of_int (det_id det), center = det_c det,
                    corners = map (\<lambda>j. det_p det ! j) [0..<4],
                    decision_margin = det_decision_margin det,
                    hamming_distance = det_hamming det,
                    pose_valid = False, tag_rotation = None, tag_translation = None,
                    position = (0, 0, 0)\<rparr>
      in case cam of None \<Rightarrow> plain
         | Some km \<Rightarrow>
            (let pose = snd (estimate_tag_pose lib
                   \<lparr>info_det = det, info_tagsize = tag_size,
                    info_fx = mat_at km 0 0, info_fy = mat_at km 1 1,
                    info_cx = mat_at km 0 2, info_cy = mat_at km 1 2\<rparr>)
             in plain\<lparr>pose_valid := True, tag_rotation := Some (fst pose),
                       tag_translation := Some (snd pose), position := snd pose\<rparr>))"

section \<open>VisionService (vision\_service.cpp, main.cpp)\<close>

text \<open>
  \<open>CalibrationData\<close>, as far as the service reads it, and \<open>CameraCalibration::load\<close>.
  What the file system holds is an input: the file cannot be opened, or it is read and
  its \<open>camera_matrix\<close> entry is a matrix or empty.
\<close>

record CalibrationData =
  cal_camera_matrix :: "Mat33 option"
  cal_dist_coeffs :: "real list"
  is_valid :: bool

datatype calibration_file = FileNotOpened | FileRead "Mat33 option" "real list"

definition load :: "calibration_file \<Rightarrow> CalibrationData \<Rightarrow> bool \<times> CalibrationData" where
  "load file cal =
     (case file of
        FileNotOpened \<Rightarrow> (False, cal)
      | FileRead km dc \<Rightarrow>
          (km \<noteq> None, cal\<lparr>cal_camera_matrix := km, cal_dist_coeffs := dc, is_valid := (km \<noteq> None)\<rparr>))"

text \<open>
  The lines of \<open>publishStatus\<close>, and everything the service prints. The per-tag and
  per-object lines of the loop are folded into \<open>MsgTags\<close> and \<open>MsgObjects\<close>.
\<close>

record status_report =
  frames_processed :: "32 word"
  tags_detected :: "32 word"
  objects_detected :: "32 word"
  average_fps :: dbl

datatype message =
    MsgAlreadyRunning | MsgStarting | MsgOpeningCamera int | MsgCameraOpenFailed int
  | MsgCalibrationLoaded | MsgNoCalibration | MsgLoadingYolo | WarnYoloFailed
  | WarnClassNamesFailed | MsgZenohNotImplemented | WarnZenohFailed | MsgStarted
  | MsgStopping | MsgStopped | MsgFrameReadFailed | MsgTags nat | MsgObjects nat
  | MsgStatus status_report

text \<open>
  The state of a \<open>VisionService\<close>. \<open>camera_opened\<close> is \<open>camera_.isOpened()\<close>,
  \<open>thread_joinable\<close> is \<open>processing_thread_.joinable()\<close>; the counters are
  \<open>uint32_t\<close>. The object detector keeps its state to itself.
\<close>

record VisionService =
  camera_index :: int
  target_fps :: int
  apriltag_size :: real
  camera_opened :: bool
  camera_calibration :: CalibrationData
  coordinate_transform :: CoordinateTransform
  running :: bool
  thread_joinable :: bool
  frame_count :: "32 word"
  total_frames_processed :: "32 word"
  total_tags_detected :: "32 word"
  total_objects_detected :: "32 word"

definition VisionService_init :: VisionService where
  "VisionService_init =
     \<lparr>camera_index = 0, target_fps = 30, apriltag_size = 15 / 1000, camera_opened = False,
      camera_calibration = \<lparr>cal_camera_matrix = None, cal_dist_coeffs = [], is_valid = False\<rparr>,
      coordinate_transform = CoordinateTransform_default,
      running = False, thread_joinable = False, frame_count = 0,
      total_frames_processed = 0, total_tags_detected = 0, total_objects_detected = 0\<rparr>"

definition setCameraIndex :: "int \<Rightarrow> VisionService \<Rightarrow> VisionService" where
  "setCameraIndex index s = s\<lparr>camera_index := index\<rparr>"

definition setFrameRate :: "int \<Rightarrow> VisionService \<Rightarrow> VisionService" where
  "setFrameRate fps s = s\<lparr>target_fps := fps\<rparr>"

definition setAprilTagSize :: "real \<Rightarrow> VisionService \<Rightarrow> VisionService" where
  "setAprilTagSize size_meters s = s\<lparr>apriltag_size := size_meters\<rparr>"

text \<open>
  What \<open>start\<close> finds outside the process. \<open>load\<close> answers true only with a
  camera matrix that is not empty, which is then the one passed to \<open>setCalibration\<close>.
  Lines printed by the collaborators themselves are left out.
\<close>

record start_env =
  camera_opens :: bool
  calibration_yml :: calibration_file
  yolo_loads :: bool
  class_names_load :: bool

definition initializeZenoh :: "bool \<times> message list" where
  "initializeZenoh = (False, [MsgZenohNotImplemented])"

definition start :: "start_env \<Rightarrow> VisionService \<Rightarrow> bool \<times> VisionService \<times> message list" where
  "start env s =
     (if running s then (False, s, [MsgAlreadyRunning])
      else
        let s1 = s\<lparr>camera_opened := camera_opens env\<rparr>;
            out1 = [MsgStarting, MsgOpeningCamera (camera_index s)]
        in if \<not> camera_opened s1 then (False, s1, out1 @ [MsgCameraOpenFailed (camera_index s)])
           else
             let loaded = load (calibration_yml env) (camera_calibration s1);
                 s2 = s1\<lparr>camera_calibration := snd loaded\<rparr>;
                 s3 = (case (fst loaded, cal_camera_matrix (snd loaded)) of
                         (True, Some km) \<Rightarrow>
                           s2\<lparr>coordinate_transform :=
                                setCalibration km (cal_dist_coeffs (snd loaded))
                                  (coordinate_transform s2)\<rparr>
                       | _ \<Rightarrow> s2);
                 out2 = out1 @ [if fst loaded then MsgCalibrationLoaded else MsgNoCalibration];
                 out3 = out2 @ [MsgLoadingYolo] @ (if \<not> yolo_loads env then [WarnYoloFailed] else []);
                 out4 = out3 @ (if \<not> class_names_load env then [WarnClassNamesFailed] else []);
                 out5 = out4 @ snd initializeZenoh
                          @ (if \<not> fst initializeZenoh then [WarnZenohFailed] else []);
                 s4 = s3\<lparr>running := True, thread_joinable := True\<rparr>
             in (True, s4, out5 @ [MsgStarted]))"

definition stop :: "VisionService \<Rightarrow> VisionService \<times> message list" where
  "stop s =
     (if \<not> running s then (s, [])
      else
        let s1 = s\<lparr>running := False\<rparr>;
            s2 = (if thread_joinable s1 then s1\<lparr>thread_joinable := False\<rparr> else s1);
            s3 = (if camera_opened s2 then s2\<lparr>camera_opened := False\<rparr> else s2)
        in (s3, [MsgStopping, MsgStopped]))"

text \<open>
  \<open>publishStatus\<close>. The average is computed in floats as
  \<open>total_frames_processed_ / (frame_count_ / float (target_fps_))\<close>: with a frame count
  of zero the outer division is by zero and the figure is not finite; with a frame rate
  of zero and a non-zero frame count the inner quotient is infinite and the figure is 0.
\<close>

definition publishStatus :: "VisionService \<Rightarrow> message" where
  "publishStatus s =
     MsgStatus
       \<lparr>frames_processed = total_frames_processed s,
        tags_detected = total_tags_detected s,
        objects_detected = total_objects_detected s,
        average_fps =
          (if unat (frame_count s) = 0 then None
           else if target_fps s = 0 then Some 0
           else Some (real (unat (total_frames_processed s))
                        / (real (unat (frame_count s)) / real_of_int (target_fps s))))\<rparr>"

text \<open>
  One turn of the \<open>while\<close> loop of \<open>processingLoop\<close>. Its inputs are the frame read
  from the camera (\<open>None\<close> when empty), how many objects the object detector reported,
  and the milliseconds measured between \<open>start_time\<close> and \<open>end_time\<close>. Its outputs are
  the new state, what was printed, and the argument of the \<open>sleep_for\<close> it called, if it
  called one.
\<close>

record 'img iteration_input =
  frame :: "'img option"
  objects :: nat
  elapsed :: int

definition loop_iteration ::
  "'img apriltag_lib \<Rightarrow> int \<Rightarrow> VisionService \<Rightarrow> 'img iteration_input
     \<Rightarrow> VisionService \<times> message list \<times> int option" where
  "loop_iteration lib frame_duration s inp =
     (case frame inp of
        None \<Rightarrow> (s, [MsgFrameReadFailed], Some 100)
      | Some img \<Rightarrow>
          let s1 = s\<lparr>frame_count := frame_count s + 1,
                      total_frames_processed := total_frames_processed s + 1\<rparr>;
              cam = (if is_valid (camera_calibration s1)
                     then cal_camera_matrix (camera_calibration s1) else None);
              dc = (if is_valid (camera_calibration s1)
                    then cal_dist_coeffs (camera_calibration s1) else []);
              tags = detect lib img cam dc (apriltag_size s1);
              s2 = s1\<lparr>total_tags_detected := total_tags_detected s1 + of_nat (length tags)\<rparr>;
              out1 = (if tags \<noteq> [] then [MsgTags (length tags)] else []);
              s3 = s2\<lparr>total_objects_detected := total_objects_detected s2 + of_nat (objects inp)\<rparr>;
              out2 = out1 @ (if objects inp \<noteq> 0 then [MsgObjects (objects inp)] else []);
              out3 = out2 @ (if unat (frame_count s3) mod 100 = 0 then [publishStatus s3] else []);
              sleep_time = frame_duration - elapsed inp
          in (s3, out3, if sleep_time > 0 then Some sleep_time else None))"

text \<open>
  \<open>1000 / target_fps_\<close> is a division of \<open>int\<close>s, which truncates; dividing by zero is
  undefined behaviour and is the fault \<open>DivisionByZero\<close> here.
\<close>

datatype fault = DivisionByZero

definition frame_duration_ms :: "int \<Rightarrow> fault + int" where
  "frame_duration_ms fps = (if fps = 0 then Inl DivisionByZero else Inr (1000 sdiv fps))"

text \<open>
  The loop runs for as long as it reads \<open>running_\<close> as true, which another thread
  decides: the list of inputs is the run of iterations it made.
\<close>

fun run_iterations ::
  "'img apriltag_lib \<Rightarrow> int \<Rightarrow> VisionService \<Rightarrow> 'img iteration_input list
     \<Rightarrow> VisionService \<times> (message list \<times> int option) list" where
  "run_iterations lib d s [] = (s, [])"
| "run_iterations lib d s (inp # inps) =
     (let r = loop_iteration lib d s inp;
          rest = run_iterations lib d (fst r) inps
      in (fst rest, snd r # snd rest))"

definition processingLoop ::
  "'img apriltag_lib \<Rightarrow> VisionService \<Rightarrow> 'img iteration_input list
     \<Rightarrow> fault + VisionService \<times> (message list \<times> int option) list" where
  "processingLoop lib s inps =
     (case frame_duration_ms (target_fps s) of
        Inl f \<Rightarrow> Inl f
      | Inr d \<Rightarrow> Inr (run_iterations lib d s inps))"

text \<open>
  \<open>std::atoi\<close> of the C library: it skips white space, reads an optional sign and the
  decimal digits that follow, and answers 0 when there are none. Its result is a 32-bit
  \<open>int\<close>: the value read is that of \<open>strtol\<close>, which saturates at the bounds of a
  64-bit \<open>long\<close>, converted to \<open>int\<close>, which keeps its low 32 bits as a two's
  complement number.
\<close>

definition is_space :: "char \<Rightarrow> bool" where
  "is_space c = (c \<in> set [CHR '' '', CHR 0x09, CHR 0x0A, CHR 0x0B, CHR 0x0C, CHR 0x0D])"

definition is_digit :: "char \<Rightarrow> bool" where
  "is_digit c = (c \<in> set ''0123456789'')"

fun atoi_digits :: "int \<Rightarrow> string \<Rightarrow> int" where
  "atoi_digits acc [] = acc"
| "atoi_digits acc (c # cs) =
     (if is_digit c then atoi_digits (10 * acc + (int (of_char c) - 48)) cs else acc)"

definition strtol_saturate :: "int \<Rightarrow> int" where
  "strtol_saturate v = max (- 9223372036854775808) (min 9223372036854775807 v)"

definition int_of_long :: "int \<Rightarrow> int" where
  "int_of_long v = (v + 2147483648) mod 4294967296 - 2147483648"

definition atoi :: "string \<Rightarrow> int" where
  "atoi str =
     int_of_long (strtol_saturate
       (case dropWhile is_space str of
          [] \<Rightarrow> 0
        | c # cs \<Rightarrow>
            if c = CHR ''-'' then - atoi_digits 0 cs
            else if c = CHR ''+'' then atoi_digits 0 cs
            else atoi_digits 0 (c # cs)))"

text \<open>
  The argument loop of \<open>main\<close>, over \<open>argv[1..]\<close>. \<open>None\<close> is the exit after
  \<open>--help\<close>. \<open>std::atof\<close> is a parameter.
\<close>

record cli =
  cli_camera_index :: int
  cli_fps :: int
  cli_apriltag_size :: real

fun parse_args :: "(string \<Rightarrow> real) \<Rightarrow> string list \<Rightarrow> cli \<Rightarrow> cli option" where
  "parse_args atof [] c = Some c"
| "parse_args atof [arg] c = (if arg = ''--help'' then None else Some c)"
| "parse_args atof (arg # v # rest) c =
     (if arg = ''--camera'' then parse_args atof rest (c\<lparr>cli_camera_index := atoi v\<rparr>)
      else if arg = ''--fps'' then parse_args atof rest (c\<lparr>cli_fps := atoi v\<rparr>)
      else if arg = ''--tag-size'' then parse_args atof rest (c\<lparr>cli_apriltag_size := atof v\<rparr>)
      else if arg = ''--help'' then None
      else parse_args atof (v # rest) c)"

definition main_configure :: "(string \<Rightarrow> real) \<Rightarrow> string list \<Rightarrow> VisionService option" where
  "main_configure atof args =
     map_option
       (\<lambda>c. setAprilTagSize (cli_apriltag_size c)
              (setFrameRate (cli_fps c) (setCameraIndex (cli_camera_index c) VisionService_init)))
       (parse_args atof args \<lparr>cli_camera_index = 0, cli_fps = 30, cli_apriltag_size = 15 / 1000\<rparr>)"

text \<open>Helpers for stating the claims about the loop.\<close>

definition slept :: "int option \<Rightarrow> int" where
  "slept sl = (case sl of None \<Rightarrow> 0 | Some d \<Rightarrow> d)"




definition blind_lib :: "nat list apriltag_lib" where
  "blind_lib =
     \<lparr>channels = (\<lambda>img. 1), cvtColor = (\<lambda>img. img),
      apriltag_detector_detect = (\<lambda>img. []),
      estimate_tag_pose = (\<lambda>info. (0, identity33, (0, 0, 1)))\<rparr>"

definition running_service :: VisionService where
  "running_service = VisionService_init\<lparr>camera_opened := True, running := True, thread_joinable := True\<rparr>"

text \<open>
  Services for evaluation: one that is running, one whose frame counter is about to
  wrap, one that has counted 100 frames and one that has counted 99.
\<close>

definition wrapping_service :: VisionService where
  "wrapping_service =
     running_service\<lparr>frame_count := 4294967295, total_frames_processed := 4294967295\<rparr>"



section \<open>Properties of CoordinateTransform\<close>

text \<open>
  Claim C2. For every ray origin, direction, plane normal and plane point,
  \<open>intersectRayPlane\<close> returns no intersection exactly when the absolute value of
  direction . normal is below 1e-6 or
  t = ((planePoint - origin) . normal) / (direction . normal) is negative; in every
  other case it returns the point origin + t * direction.
\<close>

theorem intersectRayPlane_cases:
  "intersectRayPlane ray_origin ray_direction plane_normal plane_point =
     (if \<bar>dot ray_direction plane_normal\<bar> < 1 / 1000000
         \<or> dot (vec_sub plane_point ray_origin) plane_normal / dot ray_direction plane_normal < 0
      then None
      else Some (vec_at ray_origin 0
                   + dot (vec_sub plane_point ray_origin) plane_normal / dot ray_direction plane_normal
                     * vec_at ray_direction 0,
                 vec_at ray_origin 1
                   + dot (vec_sub plane_point ray_origin) plane_normal / dot ray_direction plane_normal
                     * vec_at ray_direction 1,
                 vec_at ray_origin 2
                   + dot (vec_sub plane_point ray_origin) plane_normal / dot ray_direction plane_normal
                     * vec_at ray_direction 2))"
  by (simp add: intersectRayPlane_def eps_def Let_def)

theorem intersectRayPlane_cases_witness:
  "intersectRayPlane (0, 0, 1) (1, 0, 0) (0, 0, 1) (0, 0, 0) = None
   \<and> intersectRayPlane (0, 0, 1) (0, 0, 1) (0, 0, 1) (0, 0, 0) = None
   \<and> intersectRayPlane (0, 0, 1) (1, 0, - 1) (0, 0, 1) (0, 0, 0) = Some (1, 0, 0)"
  using intersectRayPlane_cases [of "(0, 0, 1)" "(1, 0, 0)" "(0, 0, 1)" "(0, 0, 0)"]
    intersectRayPlane_cases [of "(0, 0, 1)" "(0, 0, 1)" "(0, 0, 1)" "(0, 0, 0)"]
    intersectRayPlane_cases [of "(0, 0, 1)" "(1, 0, - 1)" "(0, 0, 1)" "(0, 0, 0)"]
  by simp

text \<open>
  Claim C4. For every pixel and plane height, \<open>imageToWorld\<close> returns the zero sentinel
  together with a diagnostic in exactly these cases: calibration or pose is missing, the
  world-frame ray direction has an absolute z below 1e-6, or
  t = (zPlane - cameraPosition.z) / rayDirection.z is negative; in every other case no
  diagnostic is printed and the z coordinate of the returned point is the requested
  plane height. The ray direction and the camera position are those of
  \<open>getRayDirection\<close> and \<open>getCameraPosition\<close>; a comparison with a NaN direction is
  false, as in the code.
\<close>

theorem imageToWorld_sentinel_cases:
  "(let r = imageToWorld U ct image_point z_plane;
        failing =
          (\<not> has_calibration ct \<or> \<not> has_pose ct
           \<or> (case snd (snd (getRayDirection U ct image_point)) of
                 None \<Rightarrow> False
               | Some ray_z \<Rightarrow>
                   \<bar>ray_z\<bar> < 1 / 1000000
                   \<or> (z_plane - vec_at (getCameraPosition ct) 2) / ray_z < 0))
    in (failing \<longrightarrow> fst r \<noteq> None \<and> snd r = (Some 0, Some 0, Some 0))
       \<and> (\<not> failing \<longrightarrow> fst r = None \<and> snd (snd (snd r)) = Some z_plane))"
proof (cases "\<not> has_calibration ct \<or> \<not> has_pose ct")
  case True
  then show ?thesis
    by (auto simp: imageToWorld_def Let_def)
next
  case ready: False
  show ?thesis
  proof (cases "cv_norm (mat_mul_vec (rotation ct)
      (fst (U (camera_matrix ct) (dist_coeffs ct) image_point),
       snd (U (camera_matrix ct) (dist_coeffs ct) image_point), 1)) = 0")
    case True
    with ready show ?thesis
      by (simp add: imageToWorld_def getRayDirection_def fdiv_def Let_def)
  next
    case False
    with ready show ?thesis
      by (simp add: imageToWorld_def getRayDirection_def getCameraPosition_def fdiv_def
          eps_def Let_def)
  qed
qed

theorem imageToWorld_sentinel_cases_witness:
  "imageToWorld undistort_pinhole CoordinateTransform_default (0, 0) 0
     = (Some MissingCalibrationOrPose, (Some 0, Some 0, Some 0))
   \<and> imageToWorld undistort_pinhole sideways_camera (0, 0) 0
     = (Some RayParallel, (Some 0, Some 0, Some 0))
   \<and> imageToWorld undistort_pinhole posed_camera (0, 0) (- 2)
     = (Some IntersectionBehind, (Some 0, Some 0, Some 0))
   \<and> fst (imageToWorld undistort_pinhole posed_camera (0, 0) 5) = None
   \<and> snd (snd (snd (imageToWorld undistort_pinhole posed_camera (0, 0) 5))) = Some 5"
  using imageToWorld_sentinel_cases [of undistort_pinhole CoordinateTransform_default "(0, 0)" 0]
    imageToWorld_sentinel_cases [of undistort_pinhole sideways_camera "(0, 0)" 0]
    imageToWorld_sentinel_cases [of undistort_pinhole posed_camera "(0, 0)" "- 2"]
    imageToWorld_sentinel_cases [of undistort_pinhole posed_camera "(0, 0)" 5]
  by (simp add: imageToWorld_def getRayDirection_def getCameraPosition_def fdiv_def eps_def
      cv_norm_def undistort_pinhole_def mat_at_def CoordinateTransform_default_def
      posed_camera_def sideways_camera_def setCalibration_def setCameraPose_def identity33_def
      Let_def)

text \<open>
  Claim C8. With calibration and pose set, \<open>worldToImage\<close> divides by the camera-frame Z
  of the world point with no guard: where that Z is zero the division is carried out
  (no diagnostic, a pixel that is not a finite number), and where it is negative, the
  point being behind the camera, a finite pixel is returned with no diagnostic.
\<close>

theorem worldToImage_unguarded_divide:
  assumes "has_calibration ct" and "has_pose ct"
  shows "(let camera_pt = mat_mul_vec (mat_t (rotation ct)) (vec_sub world_point (translation ct));
              X = vec_at camera_pt 0; Y = vec_at camera_pt 1; Z = vec_at camera_pt 2
          in (Z = 0 \<longrightarrow> worldToImage ct world_point = (None, (None, None)))
             \<and> (Z < 0 \<longrightarrow> worldToImage ct world_point =
                   (None, (Some (mat_at (camera_matrix ct) 0 0 * (X / Z) + mat_at (camera_matrix ct) 0 2),
                           Some (mat_at (camera_matrix ct) 1 1 * (Y / Z) + mat_at (camera_matrix ct) 1 2)))))"
  using assms by (simp add: worldToImage_def fdiv_def Let_def)

theorem worldToImage_unguarded_divide_witness:
  "worldToImage posed_camera (5, 0, 1) = (None, (None, None))
   \<and> worldToImage posed_camera (3, 6, - 1) = (None, (Some (- 1), Some (- 3)))"
proof -
  have ready: "has_calibration posed_camera" "has_pose posed_camera"
    by (simp_all add: posed_camera_def setCalibration_def setCameraPose_def)
  show ?thesis
    using worldToImage_unguarded_divide [OF ready, of "(5, 0, 1)"]
      worldToImage_unguarded_divide [OF ready, of "(3, 6, - 1)"]
    by (simp add: posed_camera_def setCalibration_def setCameraPose_def identity33_def
        CoordinateTransform_default_def mat_at_def Let_def)
qed

text \<open>
  Claim C1. Round trip: with calibration and pose set, for a pixel and plane height where
  the ray is not parallel to the plane and the intersection is in front of the camera,
  \<open>worldToImage (imageToWorld pixel z)\<close> gives the pixel back. The code does not: on
  \<open>posed_camera\<close> (identity rotation, translation (1, 0, 1), unit focal lengths, no
  distortion), the pixel (0, 0) and the plane z = 0, every number below is exact in
  doubles, the ray has z = 1 and t = 1, \<open>imageToWorld\<close> answers (-1, 0, 0) and
  \<open>worldToImage\<close> sends that point to the pixel (2, 0). \<open>imageToWorld\<close> places the
  camera at \<open>- R\<^sup>T t\<close>, \<open>worldToImage\<close> at \<open>t\<close>, which is what the header documents
  (camera to world).
\<close>

theorem round_trip_fails_on_posed_camera:
  "has_calibration posed_camera \<and> has_pose posed_camera
   \<and> getRayDirection undistort_pinhole posed_camera (0, 0) = (Some 0, Some 0, Some 1)
   \<and> getCameraPosition posed_camera = (- 1, 0, - 1)
   \<and> imageToWorld undistort_pinhole posed_camera (0, 0) 0 = (None, (Some (- 1), Some 0, Some 0))
   \<and> worldToImage posed_camera (- 1, 0, 0) = (None, (Some 2, Some 0))"
  by (simp add: imageToWorld_def worldToImage_def getRayDirection_def getCameraPosition_def
      fdiv_def eps_def cv_norm_def undistort_pinhole_def mat_at_def
      CoordinateTransform_default_def posed_camera_def setCalibration_def setCameraPose_def
      identity33_def Let_def)

theorem round_trip_fails_on_posed_camera_witness:
  "fst (imageToWorld undistort_pinhole posed_camera (0, 0) 0) = None
   \<and> snd (worldToImage posed_camera (- 1, 0, 0)) \<noteq> (Some 0, Some 0)"
  using round_trip_fails_on_posed_camera by simp

lemma mat_mul_vec_scale:
  "mat_mul_vec m (k * a, k * b, k * c) =
     (k * vec_at (mat_mul_vec m (a, b, c)) 0, k * vec_at (mat_mul_vec m (a, b, c)) 1,
      k * vec_at (mat_mul_vec m (a, b, c)) 2)"
  by (cases m rule: prod_cases3; cases "fst m" rule: prod_cases3; cases "fst (snd m)" rule: prod_cases3;
      cases "snd (snd m)" rule: prod_cases3) (simp add: algebra_simps)

text \<open>
  Where the translation is zero the two placements of the camera coincide, and the round
  trip does hold for an orthonormal rotation, non-zero focal lengths, no distortion and
  a plane off the camera centre.
\<close>

lemma round_trip_without_translation:
  assumes ready: "has_calibration ct" "has_pose ct"
    and origin: "translation ct = (0, 0, 0)"
    and orth: "\<And>w. mat_mul_vec (mat_t (rotation ct)) (mat_mul_vec (rotation ct) w) = w"
    and focal: "mat_at (camera_matrix ct) 0 0 \<noteq> 0" "mat_at (camera_matrix ct) 1 1 \<noteq> 0"
    and plane: "z_plane \<noteq> 0"
    and hit: "imageToWorld undistort_pinhole ct (u, v) z_plane = (None, (Some x, Some y, Some z))"
  shows "worldToImage ct (x, y, z) = (None, (Some u, Some v))"
proof -
  define nx where "nx = (u - mat_at (camera_matrix ct) 0 2) / mat_at (camera_matrix ct) 0 0"
  define ny where "ny = (v - mat_at (camera_matrix ct) 1 2) / mat_at (camera_matrix ct) 1 1"
  define rw where "rw = mat_mul_vec (rotation ct) (nx, ny, 1)"
  define n where "n = cv_norm rw"
  define t where "t = z_plane / (vec_at rw 2 / n)"
  have cam0: "mat_mul_vec (mat_t (rotation ct)) (vec_neg (translation ct)) = (0, 0, 0)"
    by (cases "rotation ct" rule: prod_cases3; cases "fst (rotation ct)" rule: prod_cases3;
        cases "fst (snd (rotation ct))" rule: prod_cases3;
        cases "snd (snd (rotation ct))" rule: prod_cases3) (simp add: origin)
  from hit ready have n0: "n \<noteq> 0"
    by (auto simp: imageToWorld_def undistort_pinhole_def Let_def n_def rw_def nx_def ny_def
        split: if_splits)
  from hit ready n0 have rz: "\<not> \<bar>vec_at rw 2 / n\<bar> < eps"
    by (auto simp: imageToWorld_def undistort_pinhole_def Let_def n_def rw_def nx_def ny_def
        split: if_splits)
  then have rz0: "vec_at rw 2 \<noteq> 0" by (auto simp: eps_def)
  from hit ready n0 rz have xyz: "x = t * (vec_at rw 0 / n)" "y = t * (vec_at rw 1 / n)" "z = z_plane"
    by (auto simp: imageToWorld_def undistort_pinhole_def Let_def n_def rw_def nx_def ny_def
        t_def cam0 split: if_splits)
  have tz: "z = t * (vec_at rw 2 / n)"
    using rz0 n0 by (simp add: xyz t_def)
  have t0: "t \<noteq> 0" using plane rz0 n0 by (simp add: t_def)
  have "(x, y, z) = (t / n * vec_at rw 0, t / n * vec_at rw 1, t / n * vec_at rw 2)"
    by (simp add: xyz(1,2) tz)
  also have "\<dots> = mat_mul_vec (rotation ct) (t / n * nx, t / n * ny, t / n * 1)"
    by (simp only: mat_mul_vec_scale rw_def [symmetric])
  finally have "mat_mul_vec (mat_t (rotation ct)) (x, y, z) = (t / n * nx, t / n * ny, t / n)"
    by (simp add: orth)
  then show ?thesis
    using ready focal t0 n0
    by (simp add: worldToImage_def origin fdiv_def Let_def nx_def ny_def)
qed

lemma round_trip_on_origin_camera:
  "imageToWorld undistort_pinhole origin_camera (0, 0) 2 = (None, (Some 0, Some 0, Some 2))
   \<and> worldToImage origin_camera (0, 0, 2) = (None, (Some 0, Some 0))"
  by (simp add: imageToWorld_def worldToImage_def fdiv_def eps_def cv_norm_def
      undistort_pinhole_def mat_at_def CoordinateTransform_default_def origin_camera_def
      setCalibration_def setCameraPose_def identity33_def Let_def)

section \<open>Properties of AprilTagDetector\<close>

lemma detect_one_eq: "detect_one lib dets cam s i = tag_result lib cam s (dets ! i)"
proof (cases cam)
  case None
  then show ?thesis by (simp add: detect_one_def tag_result_def Let_def del: upt_Suc)
next
  case (Some km)
  then show ?thesis
    unfolding detect_one_def tag_result_def estimatePose_def Let_def
    by simp
qed

lemma detect_eq: "detect lib img cam dc s = map (tag_result lib cam s) (apriltag_detector_detect lib (if channels lib img = 3 then cvtColor lib img else img))"
proof -
  have "map (detect_one lib dets cam s) [0..<length dets] = map (tag_result lib cam s) dets" for dets
    by (rule nth_equalityI) (simp_all add: detect_one_eq)
  then show ?thesis
    by (simp add: detect_def Let_def)
qed

text \<open>
  Claim C10. \<open>detect\<close> does not depend on its \<open>dist_coeffs\<close> argument: two calls that
  differ only in the distortion coefficients return the same detections and poses. The
  coefficients are never read, and each pose is what the solver makes of the corner
  pixels as detected, the tag size and the intrinsics fx, fy, cx, cy.
\<close>

theorem detect_ignores_dist_coeffs:
  "detect lib img cam dc1 tag_size = detect lib img cam dc2 tag_size
   \<and> detect lib img cam dc1 tag_size =
       map (tag_result lib cam tag_size)
         (apriltag_detector_detect lib (if channels lib img = 3 then cvtColor lib img else img))"
  by (simp add: detect_eq)

theorem detect_ignores_dist_coeffs_witness:
  "detect good_lib [1, 2, 3] (Some identity33) [] (15 / 1000)
     = detect good_lib [1, 2, 3] (Some identity33) [1 / 10, - 1 / 4, 0, 0, 1 / 20] (15 / 1000)
   \<and> map tag_rotation (detect good_lib [1, 2, 3] (Some identity33) [] (15 / 1000))
     = [Some identity33]"
proof -
  note inst = detect_ignores_dist_coeffs [of good_lib "[1, 2, 3]" "Some identity33" "[]"
      "15 / 1000" "[1 / 10, - 1 / 4, 0, 0, 1 / 20]"]
  have same: "detect good_lib [1, 2, 3] (Some identity33) [] (15 / 1000)
      = detect good_lib [1, 2, 3] (Some identity33) [1 / 10, - 1 / 4, 0, 0, 1 / 20] (15 / 1000)"
    using inst by (rule conjunct1)
  have "map tag_rotation (detect good_lib [1, 2, 3] (Some identity33) [] (15 / 1000))
      = [Some identity33]"
    unfolding inst [THEN conjunct2] by (simp add: tag_result_def good_lib_def)
  with same show ?thesis by (rule conjI)
qed

text \<open>
  Claim C3, as stated: the returned pose has \<open>valid = true\<close> only if the solve converges
  and yields a finite rotation that is orthonormal within tolerance. It fails: when the
  solver answers a large error and the zero matrix, the result is still marked valid
  and carries that matrix.
\<close>

theorem estimatePose_reports_unconverged_solve_as_valid:
  "map pose_valid (detect diverged_lib [1, 2, 3] (Some identity33) [] (15 / 1000)) = [True]
   \<and> map tag_rotation (detect diverged_lib [1, 2, 3] (Some identity33) [] (15 / 1000))
       = [Some ((0, 0, 0), (0, 0, 0), (0, 0, 0))]
   \<and> \<not> orthonormal_within (1 / 1000) ((0, 0, 0), (0, 0, 0), (0, 0, 0))"
  by (simp add: detect_eq tag_result_def diverged_lib_def orthonormal_within_def)

text \<open>
  Claim C3, amended. \<open>estimatePose\<close> returns true on every call and stores the rotation
  and translation the solver answered, whatever its error; so in the results of
  \<open>detect\<close> the pose is valid exactly when a camera matrix was passed, and rotation and
  translation are left unset exactly when none was. The estimator has no failing path.
\<close>

theorem estimatePose_always_valid:
  "(let r = estimatePose lib detections idx km tag_size result;
        solved = estimate_tag_pose lib
          \<lparr>info_det = detections ! idx, info_tagsize = tag_size,
           info_fx = mat_at km 0 0, info_fy = mat_at km 1 1,
           info_cx = mat_at km 0 2, info_cy = mat_at km 1 2\<rparr>
    in fst r = True \<and> tag_rotation (snd r) = Some (fst (snd solved))
       \<and> tag_translation (snd r) = Some (snd (snd solved)))
   \<and> (\<forall>r \<in> set (detect lib img cam dc tag_size).
         pose_valid r = (cam \<noteq> None)
         \<and> (cam = None \<longrightarrow> tag_rotation r = None \<and> tag_translation r = None))"
proof -
  have "pose_valid (tag_result lib cam tag_size det) = (cam \<noteq> None)" for det
    by (simp add: tag_result_def Let_def split: option.splits)
  moreover have "cam = None \<Longrightarrow> tag_rotation (tag_result lib cam tag_size det) = None
      \<and> tag_translation (tag_result lib cam tag_size det) = None" for det
    by (simp add: tag_result_def)
  ultimately show ?thesis
    by (auto simp: detect_eq estimatePose_def Let_def)
qed

theorem estimatePose_always_valid_witness:
  "map pose_valid (detect diverged_lib [1, 2, 3] (Some identity33) [] (15 / 1000)) = [True]
   \<and> map pose_valid (detect good_lib [1, 2, 3] (Some identity33) [] (15 / 1000)) = [True]
   \<and> map pose_valid (detect good_lib [1, 2, 3] None [] (15 / 1000)) = [False]
   \<and> map tag_rotation (detect good_lib [1, 2, 3] None [] (15 / 1000)) = [None]"
  using estimatePose_always_valid [of diverged_lib "[square_tag]" 0 identity33 "15 / 1000" _
      "[1, 2, 3]" "Some identity33" "[]"]
    estimatePose_always_valid [of good_lib "[square_tag]" 0 identity33 "15 / 1000" _
      "[1, 2, 3]" "Some identity33" "[]"]
    estimatePose_always_valid [of good_lib "[square_tag]" 0 identity33 "15 / 1000" _
      "[1, 2, 3]" None "[]"]
  by (simp add: detect_eq tag_result_def diverged_lib_def good_lib_def)

section \<open>Properties of VisionService\<close>

text \<open>
  Claim C5. The lifecycle is a Stopped, Running, Stopped state machine: \<open>start\<close> on a
  running service leaves the state as it is and reports failure; \<open>stop\<close> on a stopped
  service does nothing, and on a running one leaves it stopped; \<open>start\<close> on a stopped
  service fails only when the camera does not open, and otherwise succeeds and leaves
  the service running, a missing calibration, a missing model and the failed pub/sub
  initialisation each adding only a warning.
\<close>

theorem lifecycle:
  "(running s \<longrightarrow> start env s = (False, s, [MsgAlreadyRunning]))
   \<and> (\<not> running s \<longrightarrow> stop s = (s, []))
   \<and> (running s \<longrightarrow> \<not> running (fst (stop s)))
   \<and> fst (start env s) = (\<not> running s \<and> camera_opens env)
   \<and> (\<not> running s \<longrightarrow> running (fst (snd (start env s))) = camera_opens env)
   \<and> (\<not> running s \<and> camera_opens env \<longrightarrow>
        (\<not> fst (load (calibration_yml env) (camera_calibration s))
           \<longrightarrow> MsgNoCalibration \<in> set (snd (snd (start env s))))
        \<and> (\<not> yolo_loads env \<longrightarrow> WarnYoloFailed \<in> set (snd (snd (start env s))))
        \<and> WarnZenohFailed \<in> set (snd (snd (start env s))))"
  by (simp add: start_def stop_def initializeZenoh_def Let_def)

theorem lifecycle_witness:
  "start \<lparr>camera_opens = True, calibration_yml = FileNotOpened, yolo_loads = False,
          class_names_load = False\<rparr> running_service
     = (False, running_service, [MsgAlreadyRunning])
   \<and> stop VisionService_init = (VisionService_init, [])
   \<and> running (fst (stop running_service)) = False
   \<and> fst (start \<lparr>camera_opens = False, calibration_yml = FileNotOpened, yolo_loads = True,
          class_names_load = True\<rparr> VisionService_init) = False
   \<and> fst (start \<lparr>camera_opens = True, calibration_yml = FileNotOpened, yolo_loads = False,
          class_names_load = False\<rparr> VisionService_init) = True
   \<and> running (fst (snd (start \<lparr>camera_opens = True, calibration_yml = FileNotOpened,
          yolo_loads = False, class_names_load = False\<rparr> VisionService_init))) = True
   \<and> snd (snd (start \<lparr>camera_opens = True, calibration_yml = FileNotOpened, yolo_loads = False,
          class_names_load = False\<rparr> VisionService_init))
     = [MsgStarting, MsgOpeningCamera 0, MsgNoCalibration, MsgLoadingYolo, WarnYoloFailed,
        WarnClassNamesFailed, MsgZenohNotImplemented, WarnZenohFailed, MsgStarted]"
  using lifecycle [of running_service "\<lparr>camera_opens = True, calibration_yml = FileNotOpened,
        yolo_loads = False, class_names_load = False\<rparr>"]
    lifecycle [of VisionService_init "\<lparr>camera_opens = False, calibration_yml = FileNotOpened,
        yolo_loads = True, class_names_load = True\<rparr>"]
    lifecycle [of VisionService_init "\<lparr>camera_opens = True, calibration_yml = FileNotOpened,
        yolo_loads = False, class_names_load = False\<rparr>"]
  by (simp add: running_service_def VisionService_init_def start_def stop_def load_def
      initializeZenoh_def Let_def)

lemma loop_iteration_sleep:
  "snd (snd (loop_iteration lib d s inp)) =
     (if frame inp = None then Some 100
      else if d - elapsed inp > 0 then Some (d - elapsed inp) else None)"
  by (simp add: loop_iteration_def Let_def split: option.splits)

text \<open>
  Claim C6, as stated: every loop iteration sleeps for max (0, targetPeriod - elapsed).
  It fails for an iteration whose frame is empty: with a period of 33 ms the claim allows
  at most 33 ms, and the iteration sleeps 100 ms.
\<close>

theorem failed_read_sleeps_100:
  "snd (snd (loop_iteration blind_lib 33 running_service
       \<lparr>frame = None, objects = 0, elapsed = 5\<rparr>)) = Some 100
   \<and> slept (snd (snd (loop_iteration blind_lib 33 running_service
       \<lparr>frame = None, objects = 0, elapsed = 5\<rparr>))) \<noteq> max 0 (33 - 5)"
  by (simp add: loop_iteration_def slept_def)

text \<open>
  Claim C6, amended. An iteration that read a frame sleeps for
  max (0, targetPeriod - elapsed) after its body, and does not call \<open>sleep_for\<close> at all
  when the body took the period or longer; an iteration whose frame is empty sleeps a
  fixed 100 ms instead. The sleep of every iteration of a run is a function of that
  iteration's own measurement, so no deficit passes from one iteration to a later one.
\<close>

theorem pacing_per_iteration:
  "(frame inp \<noteq> None \<longrightarrow>
      slept (snd (snd (loop_iteration lib d s inp))) = max 0 (d - elapsed inp)
      \<and> (d \<le> elapsed inp \<longrightarrow> snd (snd (loop_iteration lib d s inp)) = None))
   \<and> (frame inp = None \<longrightarrow> snd (snd (loop_iteration lib d s inp)) = Some 100)
   \<and> map snd (snd (run_iterations lib d s inps)) =
       map (\<lambda>inp. if frame inp = None then Some 100
                  else if d - elapsed inp > 0 then Some (d - elapsed inp) else None) inps"
proof -
  have "map snd (snd (run_iterations lib d s inps)) =
       map (\<lambda>inp. if frame inp = None then Some 100
                  else if d - elapsed inp > 0 then Some (d - elapsed inp) else None) inps"
    by (induction inps arbitrary: s) (simp_all add: Let_def loop_iteration_sleep)
  then show ?thesis
    by (simp add: loop_iteration_sleep slept_def)
qed

theorem pacing_per_iteration_witness:
  "snd (snd (loop_iteration blind_lib 33 running_service
       \<lparr>frame = Some [], objects = 0, elapsed = 10\<rparr>)) = Some 23
   \<and> snd (snd (loop_iteration blind_lib 33 running_service
       \<lparr>frame = Some [], objects = 0, elapsed = 50\<rparr>)) = None
   \<and> snd (snd (loop_iteration blind_lib 33 running_service
       \<lparr>frame = None, objects = 0, elapsed = 50\<rparr>)) = Some 100
   \<and> map snd (snd (run_iterations blind_lib 33 running_service
       [\<lparr>frame = Some [], objects = 0, elapsed = 50\<rparr>,
        \<lparr>frame = Some [], objects = 0, elapsed = 10\<rparr>])) = [None, Some 23]"
  using pacing_per_iteration [of "\<lparr>frame = Some [], objects = 0, elapsed = 10\<rparr>" blind_lib 33
      running_service "[\<lparr>frame = Some [], objects = 0, elapsed = 50\<rparr>,
        \<lparr>frame = Some [], objects = 0, elapsed = 10\<rparr>]"]
    pacing_per_iteration [of "\<lparr>frame = Some [], objects = 0, elapsed = 50\<rparr>" blind_lib 33
      running_service "[]"]
    pacing_per_iteration [of "\<lparr>frame = None, objects = 0, elapsed = 50\<rparr>" blind_lib 33
      running_service "[]"]
  by (simp add: slept_def split: option.splits)









text \<open>
  The property above says nothing of the iteration in which the frame counter wraps.
  There the code computes the counter 0, for which \<open>frame_count_ % 100 == 0\<close> holds as
  well, and the average divides by zero: a defect of the code.
\<close>

lemma wrapped_counter_emits_status:
  "frame_count (fst (loop_iteration blind_lib 33 wrapping_service
       \<lparr>frame = Some [], objects = 0, elapsed = 5\<rparr>)) = 0
   \<and> fst (snd (loop_iteration blind_lib 33 wrapping_service
       \<lparr>frame = Some [], objects = 0, elapsed = 5\<rparr>))
     = [MsgStatus \<lparr>frames_processed = 0, tags_detected = 0, objects_detected = 0,
                   average_fps = None\<rparr>]"
  by (simp add: loop_iteration_def wrapping_service_def running_service_def
      VisionService_init_def blind_lib_def detect_def publishStatus_def Let_def)

lemma atoi_digits_no_digit: "\<forall>c \<in> set cs. \<not> is_digit c \<Longrightarrow> atoi_digits acc cs = acc"
  by (cases cs) simp_all

lemma atoi_no_digit:
  assumes "\<forall>c \<in> set txt. \<not> is_digit c"
  shows "atoi txt = 0"
proof -
  have sub: "\<forall>c \<in> set (dropWhile is_space txt). \<not> is_digit c"
    using assms set_dropWhileD by fastforce
  show ?thesis
  proof (cases "dropWhile is_space txt")
    case Nil
    show ?thesis unfolding atoi_def Nil by (simp add: strtol_saturate_def int_of_long_def)
  next
    case (Cons c cs)
    with sub have "\<not> is_digit c" and "\<forall>c \<in> set cs. \<not> is_digit c" by simp_all
    then show ?thesis
      unfolding atoi_def Cons
      by (simp add: atoi_digits_no_digit strtol_saturate_def int_of_long_def)
  qed
qed

lemma run_iterations_sleeps:
  "map snd (snd (run_iterations lib d s inps)) =
     map (\<lambda>inp. if frame inp = None then Some 100
                else if d - elapsed inp > 0 then Some (d - elapsed inp) else None) inps"
  by (induction inps arbitrary: s) (simp_all add: Let_def loop_iteration_sleep)

text \<open>
  Claim C9. The loop runs with the period 1000 / targetFps, an integer division with no
  guard: for every targetFps above 1000 the period is 0 ms and an iteration that read a
  frame never sleeps; for targetFps = 0, which \<open>setFrameRate\<close> accepts and which
  \<open>atoi\<close> makes of a \<open>--fps\<close> text without digits, the division is by zero.
\<close>

theorem frame_period_unguarded:
  "(target_fps s \<noteq> 0 \<longrightarrow>
      processingLoop lib s inps = Inr (run_iterations lib (1000 sdiv target_fps s) s inps))
   \<and> (1000 < target_fps s \<longrightarrow>
      processingLoop lib s inps = Inr (run_iterations lib 0 s inps)
      \<and> ((\<forall>inp \<in> set inps. 0 \<le> elapsed inp) \<longrightarrow>
            map snd (snd (run_iterations lib 0 s inps))
              = map (\<lambda>inp. if frame inp = None then Some 100 else None) inps))
   \<and> (target_fps s = 0 \<longrightarrow> processingLoop lib s inps = Inl DivisionByZero)
   \<and> target_fps (setFrameRate fps s) = fps
   \<and> processingLoop lib (setFrameRate 0 s) inps = Inl DivisionByZero
   \<and> ((\<forall>c \<in> set txt. \<not> is_digit c) \<longrightarrow>
        atoi txt = 0
        \<and> map_option target_fps (main_configure atof [''--fps'', txt]) = Some 0
        \<and> map_option (\<lambda>svc. processingLoop lib svc inps) (main_configure atof [''--fps'', txt])
            = Some (Inl DivisionByZero))"
proof -
  have zero: "1000 < target_fps s \<Longrightarrow> (1000::int) sdiv target_fps s = 0"
    by (simp add: signed_divide_int_def)
  have nosleep: "\<forall>inp \<in> set inps. 0 \<le> elapsed inp \<Longrightarrow>
      map snd (snd (run_iterations lib 0 s inps))
        = map (\<lambda>inp. if frame inp = None then Some 100 else None) inps"
    by (fastforce simp: run_iterations_sleeps)
  have loop: "target_fps s \<noteq> 0 \<Longrightarrow>
      processingLoop lib s inps = Inr (run_iterations lib (1000 sdiv target_fps s) s inps)"
    by (simp add: processingLoop_def frame_duration_ms_def)
  have fault: "target_fps s' = 0 \<Longrightarrow> processingLoop lib s' inps = Inl DivisionByZero" for s'
    by (simp add: processingLoop_def frame_duration_ms_def)
  have cli: "\<forall>c \<in> set txt. \<not> is_digit c \<Longrightarrow>
      map_option target_fps (main_configure atof [''--fps'', txt]) = Some 0"
    by (simp add: atoi_no_digit main_configure_def setFrameRate_def setAprilTagSize_def
        setCameraIndex_def)
  have cli_loop: "\<forall>c \<in> set txt. \<not> is_digit c \<Longrightarrow>
      map_option (\<lambda>svc. processingLoop lib svc inps) (main_configure atof [''--fps'', txt])
        = Some (Inl DivisionByZero)"
    by (simp add: atoi_no_digit main_configure_def setFrameRate_def setAprilTagSize_def
        setCameraIndex_def fault)
  show ?thesis
    using zero nosleep loop fault [of s] fault [of "setFrameRate 0 s"] cli cli_loop
    by (auto simp: setFrameRate_def atoi_no_digit)
qed

theorem frame_period_unguarded_witness:
  "processingLoop blind_lib (setFrameRate 30 running_service)
       [\<lparr>frame = Some [], objects = 0, elapsed = 10\<rparr>]
     = Inr (run_iterations blind_lib 33 (setFrameRate 30 running_service)
         [\<lparr>frame = Some [], objects = 0, elapsed = 10\<rparr>])
   \<and> map snd (snd (run_iterations blind_lib 33 (setFrameRate 30 running_service)
         [\<lparr>frame = Some [], objects = 0, elapsed = 10\<rparr>])) = [Some 23]
   \<and> processingLoop blind_lib (setFrameRate 1001 running_service)
       [\<lparr>frame = Some [], objects = 0, elapsed = 0\<rparr>]
     = Inr (run_iterations blind_lib 0 (setFrameRate 1001 running_service)
         [\<lparr>frame = Some [], objects = 0, elapsed = 0\<rparr>])
   \<and> map snd (snd (run_iterations blind_lib 0 (setFrameRate 1001 running_service)
         [\<lparr>frame = Some [], objects = 0, elapsed = 0\<rparr>])) = [None]
   \<and> processingLoop blind_lib (setFrameRate 0 running_service)
        [\<lparr>frame = Some [], objects = 0, elapsed = 0\<rparr>] = Inl DivisionByZero
   \<and> atoi ''abc'' = 0
   \<and> map_option target_fps (main_configure (\<lambda>str. 0) [''--fps'', ''abc'']) = Some 0"
  using frame_period_unguarded [of "setFrameRate 30 running_service" blind_lib
      "[\<lparr>frame = Some [], objects = 0, elapsed = 10\<rparr>]" 0 "''abc''" "\<lambda>str. 0"]
    frame_period_unguarded [of "setFrameRate 1001 running_service" blind_lib
      "[\<lparr>frame = Some [], objects = 0, elapsed = 0\<rparr>]" 0 "''abc''" "\<lambda>str. 0"]
    frame_period_unguarded [of running_service blind_lib
      "[\<lparr>frame = Some [], objects = 0, elapsed = 0\<rparr>]" 0 "''abc''" "\<lambda>str. 0"]
  by (simp add: is_digit_def setFrameRate_def loop_iteration_sleep Let_def)

end
